theory Spec2Isabelle
  imports
    Main
    "HOL-Library.Word"
    "HOL-Library.Char_ord"
    "HOL-Library.List_Lexorder"
begin

section \<open>Signed invitation claims (examples/subscribe-link)\<close>

text \<open>
  The development embeds the two exported functions of the subscribe-link example,
  \<open>generateInvitationClaim\<close> and \<open>generateSubscribeLink\<close>, together with the parts of
  the JavaScript runtime they call.

  \<^item> Strings are \<open>string\<close> (lists of code units); the default \<open>Array.prototype.sort\<close>
    compares strings code unit by code unit, which is the lexicographic order that
    \<open>List_Lexorder\<close> and \<open>Char_ord\<close> put on \<open>char list\<close>.
  \<^item> A \<open>Record<string, string>\<close> is an association list in the object's property
    order; an object holds every key once, so a well-formed one has distinct keys.
  \<^item> A \<open>Date\<close> holds a time value in milliseconds since the epoch, or is an
    \<open>Invalid Date\<close>.
  \<^item> A \<open>throw\<close> is the left injection of the result.
  \<^item> The clock, the random source, the date parser and the HMAC of the crypto module
    are inputs of the model: the functions read them, they do not define them.
\<close>

subsection \<open>Runtime: dates\<close>

datatype jsdate = InvalidDate | TimeValue int

datatype error = Error string | RangeError string

text \<open>\<open>new Date(number)\<close>: the time value is clipped to the range of a Date.\<close>

definition timeClip :: "int \<Rightarrow> jsdate" where
  "timeClip t = (if \<bar>t\<bar> > 8640000000000000 then InvalidDate else TimeValue t)"

text \<open>
  \<open>a < b\<close> on two Date objects compares their time values as numbers; the time value of
  an Invalid Date is NaN, and every comparison with NaN is false.
\<close>

fun date_less :: "jsdate \<Rightarrow> jsdate \<Rightarrow> bool" where
  "date_less (TimeValue a) (TimeValue b) = (a < b)"
| "date_less _ _ = False"

text \<open>\<open>Date.prototype.getTime\<close> is only called on \<open>new Date()\<close>, which is never invalid.\<close>

definition msPerDay :: int where
  "msPerDay = 86400000"

text \<open>
  The civil date of a day number (days since 1970-01-01) in the proleptic Gregorian
  calendar, as the runtime's YearFromTime, MonthFromTime and DateFromTime give it:
  the result is (year, month 1..12, day of the month 1..31).
\<close>

definition civilFromDays :: "int \<Rightarrow> int \<times> int \<times> int" where
  "civilFromDays z0 =
     (let z = z0 + 719468;
          era = z div 146097;
          doe = z mod 146097;
          yoe = (doe - doe div 1460 + doe div 36524 - doe div 146096) div 365;
          doy = doe - (365 * yoe + yoe div 4 - yoe div 100);
          mp = (5 * doy + 2) div 153;
          d = doy - (153 * mp + 2) div 5 + 1;
          m = (if mp < 10 then mp + 3 else mp - 9);
          y = yoe + era * 400 + (if m \<le> 2 then 1 else 0)
      in (y, m, d))"

definition yearFromTime :: "int \<Rightarrow> int" where
  "yearFromTime t = fst (civilFromDays (t div msPerDay))"

definition digitChar :: "int \<Rightarrow> char" where
  "digitChar d = ''0123456789'' ! nat (d mod 10)"

definition pad2 :: "int \<Rightarrow> string" where
  "pad2 n = [digitChar (n div 10), digitChar n]"

definition pad3 :: "int \<Rightarrow> string" where
  "pad3 n = [digitChar (n div 100), digitChar (n div 10), digitChar n]"

definition pad4 :: "int \<Rightarrow> string" where
  "pad4 n = [digitChar (n div 1000), digitChar (n div 100), digitChar (n div 10), digitChar n]"

definition pad6 :: "int \<Rightarrow> string" where
  "pad6 n = [digitChar (n div 100000), digitChar (n div 10000)] @ pad4 n"

text \<open>
  The text of \<open>Date.prototype.toISOString\<close> for a time value: UTC,
  \<open>YYYY-MM-DDTHH:mm:ss.sssZ\<close>, with the year written with a sign and six digits when
  it is outside 0..9999.
\<close>

definition isoString :: "int \<Rightarrow> string" where
  "isoString t =
     (let (y, m, d) = civilFromDays (t div msPerDay);
          r = t mod msPerDay;
          year = (if 0 \<le> y \<and> y \<le> 9999 then pad4 y
                  else (if y < 0 then ''-'' else ''+'') @ pad6 \<bar>y\<bar>)
      in year @ ''-'' @ pad2 m @ ''-'' @ pad2 d @ ''T'' @
         pad2 (r div 3600000) @ '':'' @ pad2 (r div 60000 mod 60) @ '':'' @
         pad2 (r div 1000 mod 60) @ ''.'' @ pad3 (r mod 1000) @ ''Z'')"

text \<open>\<open>toISOString\<close> throws a RangeError on an Invalid Date.\<close>

fun toISOString :: "jsdate \<Rightarrow> error + string" where
  "toISOString InvalidDate = Inl (RangeError ''Invalid time value'')"
| "toISOString (TimeValue t) = Inr (isoString t)"

subsection \<open>Runtime: random bytes and hexadecimal text\<close>

text \<open>
  \<open>randomBytes(n)\<close> returns a buffer of exactly \<open>n\<close> bytes of the random source, here
  the stream \<open>entropy\<close>; \<open>buf.toString("hex")\<close> writes every byte as two lower-case
  hexadecimal digits, the high one first.
\<close>

definition randomBytes :: "(nat \<Rightarrow> 8 word) \<Rightarrow> nat \<Rightarrow> 8 word list" where
  "randomBytes entropy n = map entropy [0..<n]"

definition hexDigits :: string where
  "hexDigits = ''0123456789abcdef''"

definition hexByte :: "8 word \<Rightarrow> string" where
  "hexByte b = [hexDigits ! (unat b div 16), hexDigits ! (unat b mod 16)]"

definition toStringHex :: "8 word list \<Rightarrow> string" where
  "toStringHex bs = concat (map hexByte bs)"

subsection \<open>Runtime: the parts taken as inputs\<close>

text \<open>
  \<open>dateParse s\<close> is \<open>new Date(s)\<close>: the parser of the runtime, which depends on the
  local time zone for a string without an offset and answers Invalid Date for a string
  it does not understand. \<open>hmacSha256 key msg\<close> is the digest of
  \<open>createHmac("sha256", key).update(msg)\<close>.
\<close>

record runtime =
  dateParse :: "string \<Rightarrow> jsdate"
  hmacSha256 :: "string \<Rightarrow> string \<Rightarrow> 8 word list"

subsection \<open>Objects and arrays\<close>

type_synonym fields = "(string \<times> string) list"

text \<open>\<open>Object.keys(o)\<close>: the keys in property order.\<close>

definition objectKeys :: "fields \<Rightarrow> string list" where
  "objectKeys obj = map fst obj"

text \<open>
  \<open>o[key]\<close> inside a template literal: the value, or the text \<open>undefined\<close> for a
  key that the object does not have.
\<close>

definition getField :: "fields \<Rightarrow> string \<Rightarrow> string" where
  "getField obj k = (case map_of obj k of Some v \<Rightarrow> v | None \<Rightarrow> ''undefined'')"

text \<open>\<open>Array.prototype.join\<close>.\<close>

fun join :: "string \<Rightarrow> string list \<Rightarrow> string" where
  "join sep [] = []"
| "join sep [x] = x"
| "join sep (x # y # ys) = x @ sep @ join sep (y # ys)"

subsection \<open>generateInvitationClaim\<close>

definition CLAIM_DURATION_SECONDS :: int where
  "CLAIM_DURATION_SECONDS = 60 * 15"

text \<open>The constant \<open>claim\<close> of \<open>generateInvitationClaim\<close>: the text that is signed.\<close>

definition claimString :: "string \<Rightarrow> fields \<Rightarrow> string \<Rightarrow> string \<Rightarrow> string \<Rightarrow> string" where
  "claimString partner invitationFields learnerKey salt dateExpiresString =
     (let sortedFields = sort (objectKeys invitationFields)
      in join ''&''
           ([''partner='' @ partner,
             ''learner_key='' @ learnerKey,
             ''salt='' @ salt,
             ''date_expires='' @ dateExpiresString] @
            map (\<lambda>key. ''field_'' @ key @ ''='' @ getField invitationFields key) sortedFields))"

text \<open>
  \<open>now\<close> is the time value that \<open>new Date()\<close> reads when the expiry is checked.
\<close>

definition generateInvitationClaim ::
  "runtime \<Rightarrow> int \<Rightarrow> string \<Rightarrow> fields \<Rightarrow> string \<Rightarrow> string \<Rightarrow> string \<Rightarrow> string \<Rightarrow> error + string"
where
  "generateInvitationClaim rt now partner invitationFields invitationSecret learnerKey salt
     dateExpiresString =
     (if date_less (dateParse rt dateExpiresString) (TimeValue now)
      then Inl (Error ''Expiration date must be in the future'')
      else
        let claim = claimString partner invitationFields learnerKey salt dateExpiresString;
            signature = toStringHex (hmacSha256 rt invitationSecret claim)
        in Inr (claim @ ''&signature='' @ signature))"

subsection \<open>generateSubscribeLink\<close>

text \<open>
  The two optional parameters are \<open>None\<close> when the caller omits them. Their defaults
  are evaluated at the call, the salt first: \<open>entropy\<close> is the random source and
  \<open>nowDefault\<close> the clock reading of the default expiry; \<open>nowCheck\<close> is the later
  reading inside \<open>generateInvitationClaim\<close>.
\<close>

definition generateSubscribeLink ::
  "runtime \<Rightarrow> (nat \<Rightarrow> 8 word) \<Rightarrow> int \<Rightarrow> int \<Rightarrow> string \<Rightarrow> string \<Rightarrow> fields \<Rightarrow> string \<Rightarrow> string \<Rightarrow>
   string option \<Rightarrow> jsdate option \<Rightarrow> error + string"
where
  "generateSubscribeLink rt entropy nowDefault nowCheck aeviumBaseUrl partner invitationFields
     invitationSecret learnerKey saltArg dateExpiresArg =
     (let salt = (case saltArg of
                    None \<Rightarrow> toStringHex (randomBytes entropy 8)
                  | Some s \<Rightarrow> s);
          dateExpires = (case dateExpiresArg of
                    None \<Rightarrow> timeClip (nowDefault + CLAIM_DURATION_SECONDS * 1000)
                  | Some d \<Rightarrow> d)
      in case toISOString dateExpires of
           Inl e \<Rightarrow> Inl e
         | Inr isoText \<Rightarrow>
             (case generateInvitationClaim rt nowCheck partner invitationFields
                     invitationSecret learnerKey salt (take 19 isoText) of
                Inl e \<Rightarrow> Inl e
              | Inr claim \<Rightarrow> Inr (aeviumBaseUrl @ ''/invitation-claim/?'' @ claim)))"

subsection \<open>The format of the default expiry, and inputs for evaluation\<close>

text \<open>
  The format \<open>YYYY-MM-DDTHH:MM:SS\<close>: nineteen characters, a digit wherever the
  pattern has \<open>d\<close> and the pattern's own character elsewhere.
\<close>

definition isoSecondsShape :: "string \<Rightarrow> bool" where
  "isoSecondsShape s =
     list_all2 (\<lambda>c p. if p = CHR ''d'' then c \<in> set ''0123456789'' else c = p)
       s ''dddd-dd-ddTdd:dd:dd''"

text \<open>
  Reading hexadecimal text back: the value of a digit is its place in \<open>hexDigits\<close>,
  and two digits give a byte, the high one first.
\<close>

definition hexValue :: "char \<Rightarrow> nat" where
  "hexValue ch = length (takeWhile (\<lambda>d. d \<noteq> ch) hexDigits)"

fun hexDecode :: "string \<Rightarrow> 8 word list" where
  "hexDecode (h # l # rest) = of_nat (16 * hexValue h + hexValue l) # hexDecode rest"
| "hexDecode _ = []"

text \<open>
  A runtime for evaluating the functions at concrete inputs. Its parser reads the one
  date of the examples (as a runtime in UTC does) and answers Invalid Date otherwise;
  its HMAC returns 32 zero bytes, which stand for the digest in the tokens evaluated
  below. The theorems themselves hold for every runtime.
\<close>

definition exampleRuntime :: runtime where
  "exampleRuntime =
     \<lparr> dateParse = (\<lambda>s. if s = ''2025-01-01T00:15:00'' then TimeValue 1735690500000
                         else InvalidDate),
       hmacSha256 = (\<lambda>key msg. replicate 32 0) \<rparr>"

definition exampleEntropy :: "nat \<Rightarrow> 8 word" where
  "exampleEntropy i = of_nat (37 * i + 250)"

section \<open>Properties\<close>

subsection \<open>Auxiliary facts\<close>

lemma join_Cons: "join sep (x # xs) = x @ concat (map (\<lambda>y. sep @ y) xs)"
  by (induction xs arbitrary: x) simp_all

lemma claimString_expand:
  "claimString partner fs learnerKey salt ds =
     ''partner='' @ partner @ ''&learner_key='' @ learnerKey @ ''&salt='' @ salt @
     ''&date_expires='' @ ds @
     concat (map (\<lambda>key. ''&field_'' @ key @ ''='' @ getField fs key) (sort (objectKeys fs)))"
  by (simp add: claimString_def join_Cons comp_def del: join.simps)

lemma sort_keys_permuted:
  assumes "distinct (map fst fs)" "distinct (map fst fs')" "set fs = set fs'"
  shows "sort (objectKeys fs) = sort (objectKeys fs')"
proof (rule sorted_distinct_set_unique)
  show "set (sort (objectKeys fs)) = set (sort (objectKeys fs'))"
    using assms(3) by (simp add: objectKeys_def)
qed (use assms in \<open>simp_all add: objectKeys_def\<close>)

lemma getField_permuted:
  assumes "distinct (map fst fs)" "distinct (map fst fs')" "set fs = set fs'"
  shows "getField fs = getField fs'"
proof -
  have "map_of fs = map_of fs'"
    using assms by (simp add: map_of_inject_set)
  then show ?thesis by (simp add: getField_def fun_eq_iff)
qed

lemma hexDigit_mem: "n < 16 \<Longrightarrow> hexDigits ! n \<in> set hexDigits"
  by (rule nth_mem) (simp add: hexDigits_def)

lemma set_hexByte: "set (hexByte b) \<subseteq> set hexDigits"
proof -
  have "unat b < 256" using unsigned_less [of b, where ?'a = nat] by simp
  then have "unat b div 16 < 16" by simp
  then show ?thesis by (simp add: hexByte_def hexDigit_mem)
qed

lemma length_toStringHex: "length (toStringHex bs) = 2 * length bs"
  by (induction bs) (simp_all add: toStringHex_def hexByte_def)

lemma set_toStringHex: "set (toStringHex bs) \<subseteq> set hexDigits"
  using set_hexByte by (auto simp: toStringHex_def)

lemma hexValue_table: "list_all (\<lambda>n. hexValue (hexDigits ! n) = n) [0..<16]"
  by code_simp

lemma hexValue_digit: "n < 16 \<Longrightarrow> hexValue (hexDigits ! n) = n"
  using hexValue_table by (simp add: list_all_iff)

lemma hexDecode_hexByte: "hexDecode (hexByte b @ rest) = b # hexDecode rest"
proof -
  have "unat b < 256" using unsigned_less [of b, where ?'a = nat] by simp
  then have hi: "unat b div 16 < 16" by simp
  have lo: "unat b mod 16 < 16" by simp
  have "16 * (unat b div 16) + unat b mod 16 = unat b" by simp
  then show ?thesis
    by (simp add: hexByte_def hexValue_digit [OF hi] hexValue_digit [OF lo])
qed

lemma hexDecode_toStringHex: "hexDecode (toStringHex bs) = bs"
proof (induction bs)
  case Nil
  then show ?case by (simp add: toStringHex_def)
next
  case (Cons b bs)
  have "toStringHex (b # bs) = hexByte b @ toStringHex bs"
    by (simp add: toStringHex_def)
  then show ?case using Cons by (simp only: hexDecode_hexByte)
qed

lemma length_randomBytes: "length (randomBytes entropy n) = n"
  by (simp add: randomBytes_def)

lemma digitChar_digit: "digitChar d \<in> set ''0123456789''"
  unfolding digitChar_def by (rule nth_mem) simp

lemma shape_of_pads:
  "isoSecondsShape (take 19 (pad4 y @ ''-'' @ pad2 m @ ''-'' @ pad2 d @ ''T'' @
      pad2 h @ '':'' @ pad2 mi @ '':'' @ pad2 s @ rest))"
  using digitChar_digit by (simp add: isoSecondsShape_def pad4_def pad2_def)

lemma isoString_shape:
  assumes "0 \<le> yearFromTime t" "yearFromTime t \<le> 9999"
  shows "isoSecondsShape (take 19 (isoString t))"
proof -
  obtain y m d where c: "civilFromDays (t div msPerDay) = (y, m, d)"
    by (cases "civilFromDays (t div msPerDay)")
  have y: "0 \<le> y \<and> y \<le> 9999"
    using assms c by (simp add: yearFromTime_def)
  have "isoString t = pad4 y @ ''-'' @ pad2 m @ ''-'' @ pad2 d @ ''T'' @
      pad2 (t mod msPerDay div 3600000) @ '':'' @ pad2 (t mod msPerDay div 60000 mod 60) @ '':'' @
      pad2 (t mod msPerDay div 1000 mod 60) @ (''.'' @ pad3 (t mod msPerDay mod 1000) @ ''Z'')"
    unfolding isoString_def c Let_def prod.case using y
    by (simp only: if_True simp_thms append_assoc)
  then show ?thesis
    by (simp only: shape_of_pads)
qed

lemma div_bounds:
  fixes x k :: int
  assumes "0 < k"
  shows "k * (x div k) \<le> x" and "x < k * (x div k) + k"
proof -
  have "x = k * (x div k) + x mod k" by simp
  moreover have "0 \<le> x mod k" and "x mod k < k" using assms by simp_all
  ultimately show "k * (x div k) \<le> x" and "x < k * (x div k) + k" by linarith+
qed

text \<open>
  The year of the era is between 0 and 399: \<open>n\<close> is the dividend of
  \<open>civilFromDays\<close>, written with the three quotients it subtracts and adds.
\<close>

lemma yearOfEra_bounds:
  fixes doe a b c n :: int
  assumes doe: "0 \<le> doe" "doe < 146097"
    and a: "1460 * a \<le> doe" "doe < 1460 * a + 1460"
    and b: "36524 * b \<le> doe" "doe < 36524 * b + 36524"
    and c: "146096 * c \<le> doe" "doe < 146096 * c + 146096"
    and n: "n = doe - a + b - c"
  shows "0 \<le> n" and "n < 146000"
proof -
  have b0: "0 \<le> b" using b doe by linarith
  have c0: "0 \<le> c" using c doe by linarith
  have a0: "0 \<le> a" using a doe by linarith
  have c1: "c \<le> 1" using c doe by linarith
  have b4: "b \<le> 4" using b doe by linarith
  show "0 \<le> n" using a c b0 doe n by linarith
  show "n < 146000"
  proof (cases "c = 1")
    case True
    then have "146096 \<le> doe" using c by linarith
    then have "100 \<le> a" using a by linarith
    then show ?thesis using True b4 doe n by linarith
  next
    case False
    then have cz: "c = 0" using c0 c1 by linarith
    then have d: "doe < 146096" using c by linarith
    then have b3: "b \<le> 3" using b by linarith
    show ?thesis
    proof (cases "146000 \<le> doe")
      case True
      then have "100 \<le> a" using a by linarith
      then show ?thesis using b3 cz d n by linarith
    next
      case lt: False
      show ?thesis
      proof (cases "b = 0")
        case True
        then show ?thesis using a0 cz lt n by linarith
      next
        case False
        then have "1 \<le> b" using b0 by linarith
        then have "36524 \<le> doe" using b by linarith
        then have "25 \<le> a" using a by linarith
        then show ?thesis using b3 cz lt n by linarith
      qed
    qed
  qed
qed


text \<open>
  From 1970-01-01T00:00:00.000Z to 9999-12-31T23:59:59.999Z the year has four digits.
\<close>

lemma yearFromTime_bounds:
  assumes t: "0 \<le> t" "t \<le> 253402300799999"
  shows "0 \<le> yearFromTime t \<and> yearFromTime t \<le> 9999"
proof -
  define day where "day = t div 86400000"
  define z where "z = day + 719468"
  define era where "era = z div 146097"
  define doe where "doe = z mod 146097"
  define a where "a = doe div 1460"
  define b where "b = doe div 36524"
  define c where "c = doe div 146096"
  define n where "n = doe - a + b - c"
  define yoe where "yoe = n div 365"
  define doy where "doy = doe - (365 * yoe + yoe div 4 - yoe div 100)"
  define mp where "mp = (5 * doy + 2) div 153"
  define m where "m = (if mp < 10 then mp + 3 else mp - 9)"
  define leap where "leap = (if m \<le> 2 then 1 else 0 :: int)"
  have y: "yearFromTime t = yoe + era * 400 + leap"
    unfolding yearFromTime_def civilFromDays_def msPerDay_def Let_def fst_conv
      leap_def m_def mp_def doy_def yoe_def n_def a_def b_def c_def doe_def era_def z_def day_def
    by (rule refl)
  have day: "0 \<le> day" "day \<le> 2932896"
    using div_bounds [of 86400000 t] t unfolding day_def by linarith+
  have z: "719468 \<le> z" "z \<le> 3652364"
    using day unfolding z_def by linarith+
  have era: "146097 * era \<le> z" "z < 146097 * era + 146097"
    using div_bounds [of 146097 z] unfolding era_def by simp_all
  have doe_eq: "doe = z - 146097 * era"
    unfolding doe_def era_def by (simp add: minus_mult_div_eq_mod)
  have doe: "0 \<le> doe" "doe < 146097"
    unfolding doe_def by simp_all
  have era4: "4 \<le> era" using era z by linarith
  have era24: "era \<le> 24" using era z by linarith
  have a: "1460 * a \<le> doe" "doe < 1460 * a + 1460"
    using div_bounds [of 1460 doe] unfolding a_def by simp_all
  have b: "36524 * b \<le> doe" "doe < 36524 * b + 36524"
    using div_bounds [of 36524 doe] unfolding b_def by simp_all
  have c: "146096 * c \<le> doe" "doe < 146096 * c + 146096"
    using div_bounds [of 146096 doe] unfolding c_def by simp_all
  have n: "0 \<le> n" "n < 146000"
    using yearOfEra_bounds [OF doe a b c n_def] by simp_all
  have yoe: "365 * yoe \<le> n" "n < 365 * yoe + 365"
    using div_bounds [of 365 n] unfolding yoe_def by simp_all
  have yoe0: "0 \<le> yoe" using yoe n by linarith
  have yoe399: "yoe \<le> 399" using yoe n by linarith
  have leap: "0 \<le> leap" "leap \<le> 1"
    unfolding leap_def by simp_all
  have lower: "0 \<le> yoe + era * 400 + leap"
    using yoe0 era4 leap by linarith
  have upper: "yoe + era * 400 + leap \<le> 9999"
  proof (cases "era = 24")
    case False
    then have "era \<le> 23" using era24 by linarith
    then show ?thesis using yoe399 leap by linarith
  next
    case True
    then have d: "doe \<le> 146036" using doe_eq z by linarith
    show ?thesis
    proof (cases "yoe = 399")
      case False
      then have "yoe \<le> 398" using yoe399 by linarith
      then show ?thesis using True leap by linarith
    next
      case y399: True
      have c0: "c = 0" using c d doe by linarith
      have b3: "b \<le> 3" using b d by linarith
      have a0: "0 \<le> a" using a doe by linarith
      have "145635 \<le> n" using yoe y399 by linarith
      then have da: "145632 \<le> doe - a" using b3 c0 n_def by linarith
      then have "145632 \<le> doe" using a0 by linarith
      then have "99 \<le> a" using a by linarith
      then have d2: "145731 \<le> doe" using da by linarith
      have "doy = doe - 145731"
        unfolding doy_def y399 by simp
      then have doy: "0 \<le> doy" "doy \<le> 305" using d d2 by linarith+
      have mp: "153 * mp \<le> 5 * doy + 2" "5 * doy + 2 < 153 * mp + 153"
        using div_bounds [of 153 "5 * doy + 2"] unfolding mp_def by simp_all
      have "0 \<le> mp" using mp doy by linarith
      moreover have "mp \<le> 9" using mp doy by linarith
      ultimately have "\<not> m \<le> 2" unfolding m_def by simp
      then have "leap = 0" unfolding leap_def by simp
      then show ?thesis using True y399 by linarith
    qed
  qed
  show ?thesis using lower upper unfolding y by simp
qed

text \<open>The two outcomes of \<open>generateInvitationClaim\<close>.\<close>

lemma generateInvitationClaim_expired:
  "date_less (dateParse rt ds) (TimeValue now) \<Longrightarrow>
   generateInvitationClaim rt now partner fs secret learnerKey salt ds =
     Inl (Error ''Expiration date must be in the future'')"
  by (simp add: generateInvitationClaim_def)

lemma generateInvitationClaim_signed:
  "\<not> date_less (dateParse rt ds) (TimeValue now) \<Longrightarrow>
   generateInvitationClaim rt now partner fs secret learnerKey salt ds =
     Inr (claimString partner fs learnerKey salt ds @ ''&signature='' @
          toStringHex (hmacSha256 rt secret (claimString partner fs learnerKey salt ds)))"
  by (simp add: generateInvitationClaim_def Let_def)

subsection \<open>C1: the signed claim\<close>

text \<open>
  Claim C1. Whenever \<open>generateInvitationClaim\<close> returns a token (the claim was
  accepted), the token is the signed text \<open>claim\<close>, then \<open>&signature=\<close>, then the
  hexadecimal text of the HMAC-SHA256 digest computed with the secret as key and
  \<open>claim\<close> as message, and nothing else. The hexadecimal text uses only the
  characters \<open>0..9\<close> and \<open>a..f\<close>, has two characters for every byte of the
  digest, and reads back as the digest.
\<close>

theorem signed_claim_format:
  assumes "generateInvitationClaim rt now partner fs secret learnerKey salt ds = Inr token"
  shows "token = claimString partner fs learnerKey salt ds @ ''&signature='' @
           toStringHex (hmacSha256 rt secret (claimString partner fs learnerKey salt ds))
       \<and> set (toStringHex (hmacSha256 rt secret (claimString partner fs learnerKey salt ds)))
           \<subseteq> set ''0123456789abcdef''
       \<and> length (toStringHex (hmacSha256 rt secret (claimString partner fs learnerKey salt ds)))
           = 2 * length (hmacSha256 rt secret (claimString partner fs learnerKey salt ds))
       \<and> hexDecode (toStringHex (hmacSha256 rt secret (claimString partner fs learnerKey salt ds)))
           = hmacSha256 rt secret (claimString partner fs learnerKey salt ds)"
proof -
  have "\<not> date_less (dateParse rt ds) (TimeValue now)"
    using assms by (auto simp: generateInvitationClaim_expired)
  then have "token = claimString partner fs learnerKey salt ds @ ''&signature='' @
           toStringHex (hmacSha256 rt secret (claimString partner fs learnerKey salt ds))"
    using assms by (simp add: generateInvitationClaim_signed)
  moreover have "set (toStringHex (hmacSha256 rt secret (claimString partner fs learnerKey salt ds)))
           \<subseteq> set ''0123456789abcdef''"
    using set_toStringHex [of "hmacSha256 rt secret (claimString partner fs learnerKey salt ds)"]
    by (simp only: hexDigits_def)
  ultimately show ?thesis
    by (simp only: length_toStringHex hexDecode_toStringHex simp_thms)
qed

theorem signed_claim_format_witness:
  "generateInvitationClaim exampleRuntime 1735689600000 ''acme'' [(''code'', ''ABC123'')]
      ''s3cr3t'' ''lk_001'' ''deadbeef'' ''2025-01-01T00:15:00''
     = Inr (''partner=acme&learner_key=lk_001&salt=deadbeef&date_expires=2025-01-01T00:15:00&field_code=ABC123&signature=0000000000000000000000000000000000000000000000000000000000000000'')
   \<and> ''partner=acme&learner_key=lk_001&salt=deadbeef&date_expires=2025-01-01T00:15:00&field_code=ABC123&signature=0000000000000000000000000000000000000000000000000000000000000000''
     = claimString ''acme'' [(''code'', ''ABC123'')] ''lk_001'' ''deadbeef'' ''2025-01-01T00:15:00''
       @ ''&signature='' @
       toStringHex (hmacSha256 exampleRuntime ''s3cr3t''
         (claimString ''acme'' [(''code'', ''ABC123'')] ''lk_001'' ''deadbeef'' ''2025-01-01T00:15:00''))"
proof -
  have h: "generateInvitationClaim exampleRuntime 1735689600000 ''acme'' [(''code'', ''ABC123'')]
      ''s3cr3t'' ''lk_001'' ''deadbeef'' ''2025-01-01T00:15:00''
     = Inr (''partner=acme&learner_key=lk_001&salt=deadbeef&date_expires=2025-01-01T00:15:00&field_code=ABC123&signature=0000000000000000000000000000000000000000000000000000000000000000'')"
    by code_simp
  show ?thesis
    using h signed_claim_format [OF h] by (simp only: simp_thms)
qed

subsection \<open>C2: the signed text does not depend on the insertion order of the fields\<close>

text \<open>
  Claim C2. Two field objects with the same entries, inserted in any two orders, give
  the same signed text for the same partner, learner key, salt and expiry: the text is
  the four fixed parameters followed by one \<open>field_<key>=<value>\<close> for every key,
  the keys sorted ascending in the lexicographic order of strings.
\<close>

theorem canonical_string_order_independent:
  assumes "distinct (map fst fs)" "distinct (map fst fs')" "set fs = set fs'"
  shows "claimString partner fs learnerKey salt ds = claimString partner fs' learnerKey salt ds
       \<and> claimString partner fs learnerKey salt ds =
           ''partner='' @ partner @ ''&learner_key='' @ learnerKey @ ''&salt='' @ salt @
           ''&date_expires='' @ ds @
           concat (map (\<lambda>key. ''&field_'' @ key @ ''='' @ getField fs key) (sort (map fst fs)))
       \<and> sorted (sort (map fst fs))
       \<and> set (sort (map fst fs)) = fst ` set fs"
proof -
  have "claimString partner fs learnerKey salt ds = claimString partner fs' learnerKey salt ds"
    unfolding claimString_def
    by (simp only: sort_keys_permuted [OF assms] getField_permuted [OF assms])
  moreover have "claimString partner fs learnerKey salt ds =
           ''partner='' @ partner @ ''&learner_key='' @ learnerKey @ ''&salt='' @ salt @
           ''&date_expires='' @ ds @
           concat (map (\<lambda>key. ''&field_'' @ key @ ''='' @ getField fs key) (sort (map fst fs)))"
    using claimString_expand [of partner fs learnerKey salt ds] by (simp only: objectKeys_def)
  ultimately show ?thesis by simp
qed

theorem canonical_string_order_independent_witness:
  "distinct (map fst [(''b'', ''1''), (''a'', ''2''), (''ab'', ''3'')])
   \<and> distinct (map fst [(''ab'', ''3''), (''a'', ''2''), (''b'', ''1'')])
   \<and> set [(''b'', ''1''), (''a'', ''2''), (''ab'', ''3'')] = set [(''ab'', ''3''), (''a'', ''2''), (''b'', ''1'')]
   \<and> claimString ''acme'' [(''b'', ''1''), (''a'', ''2''), (''ab'', ''3'')] ''lk'' ''s'' ''d''
       = claimString ''acme'' [(''ab'', ''3''), (''a'', ''2''), (''b'', ''1'')] ''lk'' ''s'' ''d''
   \<and> claimString ''acme'' [(''b'', ''1''), (''a'', ''2''), (''ab'', ''3'')] ''lk'' ''s'' ''d''
       = ''partner=acme&learner_key=lk&salt=s&date_expires=d&field_a=2&field_ab=3&field_b=1''"
proof -
  have d1: "distinct (map fst [(''b'', ''1''), (''a'', ''2''), (''ab'', ''3'')])" by simp
  have d2: "distinct (map fst [(''ab'', ''3''), (''a'', ''2''), (''b'', ''1'')])" by simp
  have s: "set [(''b'', ''1''), (''a'', ''2''), (''ab'', ''3'')] = set [(''ab'', ''3''), (''a'', ''2''), (''b'', ''1'')]"
    by auto
  have v: "claimString ''acme'' [(''b'', ''1''), (''a'', ''2''), (''ab'', ''3'')] ''lk'' ''s'' ''d''
       = ''partner=acme&learner_key=lk&salt=s&date_expires=d&field_a=2&field_ab=3&field_b=1''"
    by code_simp
  show ?thesis
    using d1 d2 s v canonical_string_order_independent [OF d1 d2 s, of "''acme''" "''lk''" "''s''" "''d''"]
    by (simp only: simp_thms)
qed

subsection \<open>C3: the scenario of the specification\<close>

text \<open>
  Claim C3. When the current time is before the expiry, signing partner \<open>acme\<close>,
  learner key \<open>lk_001\<close>, salt \<open>deadbeef\<close>, expiry \<open>2025-01-01T00:15:00\<close> and
  fields \<open>{code: ABC123}\<close> gives a token whose part before \<open>&signature=\<close> is
  exactly the text of the specification, for every secret.
\<close>

theorem scenario_canonical_portion:
  assumes "dateParse rt ''2025-01-01T00:15:00'' = TimeValue t" "now < t"
  shows "generateInvitationClaim rt now ''acme'' [(''code'', ''ABC123'')] secret ''lk_001''
           ''deadbeef'' ''2025-01-01T00:15:00''
       = Inr (''partner=acme&learner_key=lk_001&salt=deadbeef&date_expires=2025-01-01T00:15:00&field_code=ABC123''
              @ ''&signature='' @
              toStringHex (hmacSha256 rt secret
                ''partner=acme&learner_key=lk_001&salt=deadbeef&date_expires=2025-01-01T00:15:00&field_code=ABC123''))"
proof -
  have c: "claimString ''acme'' [(''code'', ''ABC123'')] ''lk_001'' ''deadbeef'' ''2025-01-01T00:15:00''
      = ''partner=acme&learner_key=lk_001&salt=deadbeef&date_expires=2025-01-01T00:15:00&field_code=ABC123''"
    by code_simp
  have "\<not> date_less (dateParse rt ''2025-01-01T00:15:00'') (TimeValue now)"
    using assms by simp
  from generateInvitationClaim_signed [OF this] show ?thesis
    by (simp only: c)
qed

theorem scenario_canonical_portion_witness:
  "dateParse exampleRuntime ''2025-01-01T00:15:00'' = TimeValue 1735690500000
   \<and> (1735689600000 :: int) < 1735690500000
   \<and> generateInvitationClaim exampleRuntime 1735689600000 ''acme'' [(''code'', ''ABC123'')] ''s3cr3t''
        ''lk_001'' ''deadbeef'' ''2025-01-01T00:15:00''
       = Inr (''partner=acme&learner_key=lk_001&salt=deadbeef&date_expires=2025-01-01T00:15:00&field_code=ABC123''
              @ ''&signature='' @
              toStringHex (hmacSha256 exampleRuntime ''s3cr3t''
                ''partner=acme&learner_key=lk_001&salt=deadbeef&date_expires=2025-01-01T00:15:00&field_code=ABC123''))"
proof -
  have p: "dateParse exampleRuntime ''2025-01-01T00:15:00'' = TimeValue 1735690500000"
    by (simp add: exampleRuntime_def)
  have l: "(1735689600000 :: int) < 1735690500000" by simp
  show ?thesis
    using p l scenario_canonical_portion [OF p l, of "''s3cr3t''"] by (simp only: simp_thms)
qed

subsection \<open>C4: the expiry check\<close>

text \<open>
  An expiry that the parser reads as a time strictly before the clock reading is
  refused, and the refusal does not depend on the HMAC: it is
  \<open>generateInvitationClaim_expired\<close>, for every runtime. The next lemma is the
  boundary: an expiry equal to the clock reading passes the check.
\<close>

lemma expiry_equal_to_now_passes_check:
  "dateParse rt ds = TimeValue now \<Longrightarrow>
   generateInvitationClaim rt now partner fs secret learnerKey salt ds =
     Inr (claimString partner fs learnerKey salt ds @ ''&signature='' @
          toStringHex (hmacSha256 rt secret (claimString partner fs learnerKey salt ds)))"
  by (simp add: generateInvitationClaim_signed)

text \<open>
  Claim C4 says that every claim whose expiry is not strictly after the current time,
  the expiry equal to the current time included, fails before a signature is computed.
  The function's own message is \<open>Expiration date must be in the future\<close>, but its
  test is \<open>expiry < now\<close>: at the instant of the expiry itself the claim is signed.
  Here the parser reads the expiry as 1735690500000 and the clock reads 1735690500000.
\<close>

theorem expiry_equal_to_now_is_signed:
  "dateParse exampleRuntime ''2025-01-01T00:15:00'' = TimeValue 1735690500000
   \<and> generateInvitationClaim exampleRuntime 1735690500000 ''acme'' [(''code'', ''ABC123'')]
        ''s3cr3t'' ''lk_001'' ''deadbeef'' ''2025-01-01T00:15:00''
     = Inr ''partner=acme&learner_key=lk_001&salt=deadbeef&date_expires=2025-01-01T00:15:00&field_code=ABC123&signature=0000000000000000000000000000000000000000000000000000000000000000''"
  by code_simp

subsection \<open>C7: an empty partner or learner key\<close>

text \<open>
  Claim C7 says that a claim with an empty partner or an empty learner key is refused.
  The function has no such check: both empty, with an expiry after the current time,
  give a token.
\<close>

theorem empty_partner_counterexample:
  "generateInvitationClaim exampleRuntime 1735689600000 '''' [(''code'', ''ABC123'')]
        ''s3cr3t'' '''' ''deadbeef'' ''2025-01-01T00:15:00''
     = Inr ''partner=&learner_key=&salt=deadbeef&date_expires=2025-01-01T00:15:00&field_code=ABC123&signature=0000000000000000000000000000000000000000000000000000000000000000''"
  by code_simp

text \<open>
  Claim C7, amended. The function does not check the partner or the learner key: a
  claim whose partner or learner key is the empty string, and whose expiry is not before
  the current time, is signed like any other, and the token has nothing between
  \<open>partner=\<close> (or \<open>learner_key=\<close>) and the next \<open>&\<close>.
\<close>

theorem empty_partner_or_learner_key_is_signed:
  assumes "partner = [] \<or> learnerKey = []"
      and "\<not> date_less (dateParse rt ds) (TimeValue now)"
  shows "generateInvitationClaim rt now partner fs secret learnerKey salt ds =
     Inr (''partner='' @ partner @ ''&learner_key='' @ learnerKey @ ''&salt='' @ salt @
          ''&date_expires='' @ ds @
          concat (map (\<lambda>key. ''&field_'' @ key @ ''='' @ getField fs key) (sort (objectKeys fs))) @
          ''&signature='' @
          toStringHex (hmacSha256 rt secret (claimString partner fs learnerKey salt ds)))"
  using generateInvitationClaim_signed [OF assms(2), of partner fs secret learnerKey salt]
  by (simp add: claimString_expand)

theorem empty_partner_or_learner_key_is_signed_witness:
  "('''' = ([] :: string) \<or> ''lk_001'' = [])
   \<and> \<not> date_less (dateParse exampleRuntime ''2025-01-01T00:15:00'') (TimeValue 1735689600000)
   \<and> generateInvitationClaim exampleRuntime 1735689600000 '''' [] ''s3cr3t'' ''lk_001'' ''deadbeef''
         ''2025-01-01T00:15:00''
       = Inr (''partner=&learner_key=lk_001&salt=deadbeef&date_expires=2025-01-01T00:15:00&signature='' @
          toStringHex (hmacSha256 exampleRuntime ''s3cr3t''
            (claimString '''' [] ''lk_001'' ''deadbeef'' ''2025-01-01T00:15:00'')))"
proof -
  have e: "'''' = ([] :: string) \<or> ''lk_001'' = []" by simp
  have n: "\<not> date_less (dateParse exampleRuntime ''2025-01-01T00:15:00'') (TimeValue 1735689600000)"
    by (simp add: exampleRuntime_def)
  show ?thesis
    using e n empty_partner_or_learner_key_is_signed [OF e n, of "[]" "''s3cr3t''" "''deadbeef''"]
    by (simp add: objectKeys_def)
qed

subsection \<open>C8: an empty secret\<close>

text \<open>
  Claim C8 says that signing with the empty secret fails. The function passes the
  secret to the HMAC without looking at it: the empty secret gives a token.
\<close>

theorem empty_secret_counterexample:
  "generateInvitationClaim exampleRuntime 1735689600000 ''acme'' [(''code'', ''ABC123'')]
        '''' ''lk_001'' ''deadbeef'' ''2025-01-01T00:15:00''
     = Inr ''partner=acme&learner_key=lk_001&salt=deadbeef&date_expires=2025-01-01T00:15:00&field_code=ABC123&signature=0000000000000000000000000000000000000000000000000000000000000000''"
  by code_simp

text \<open>
  Claim C8, amended. The function does not check the secret: with the empty secret and
  an expiry that is not before the current time it returns the signed text followed by
  \<open>&signature=\<close> and the hexadecimal HMAC-SHA256 digest keyed with the empty string.
\<close>

theorem empty_secret_is_used_as_key:
  assumes "\<not> date_less (dateParse rt ds) (TimeValue now)"
  shows "generateInvitationClaim rt now partner fs [] learnerKey salt ds =
     Inr (claimString partner fs learnerKey salt ds @ ''&signature='' @
          toStringHex (hmacSha256 rt [] (claimString partner fs learnerKey salt ds)))"
  using assms by (rule generateInvitationClaim_signed)

theorem empty_secret_is_used_as_key_witness:
  "\<not> date_less (dateParse exampleRuntime ''2025-01-01T00:15:00'') (TimeValue 1735689600000)
   \<and> generateInvitationClaim exampleRuntime 1735689600000 ''acme'' [(''code'', ''ABC123'')] [] ''lk_001''
         ''deadbeef'' ''2025-01-01T00:15:00''
       = Inr (claimString ''acme'' [(''code'', ''ABC123'')] ''lk_001'' ''deadbeef'' ''2025-01-01T00:15:00'' @
           ''&signature='' @
           toStringHex (hmacSha256 exampleRuntime []
             (claimString ''acme'' [(''code'', ''ABC123'')] ''lk_001'' ''deadbeef'' ''2025-01-01T00:15:00'')))"
proof -
  have n: "\<not> date_less (dateParse exampleRuntime ''2025-01-01T00:15:00'') (TimeValue 1735689600000)"
    by (simp add: exampleRuntime_def)
  show ?thesis
    using n empty_secret_is_used_as_key [OF n, of "''acme''" "[(''code'', ''ABC123'')]" "''lk_001''" "''deadbeef''"]
    by (simp only: simp_thms)
qed

subsection \<open>C9: an expiry that is not a date\<close>

text \<open>
  Claim C9. When the parser answers Invalid Date for the expiry string, the comparison
  with the current time is false, no error is raised, and the string stands unchanged
  after \<open>date_expires=\<close> in the token that is signed and returned.
\<close>

theorem unparseable_expiry_is_signed_verbatim:
  assumes "dateParse rt ds = InvalidDate"
  shows "generateInvitationClaim rt now partner fs secret learnerKey salt ds =
     Inr (''partner='' @ partner @ ''&learner_key='' @ learnerKey @ ''&salt='' @ salt @
          ''&date_expires='' @ ds @
          concat (map (\<lambda>key. ''&field_'' @ key @ ''='' @ getField fs key) (sort (objectKeys fs))) @
          ''&signature='' @
          toStringHex (hmacSha256 rt secret (claimString partner fs learnerKey salt ds)))"
proof -
  have "\<not> date_less (dateParse rt ds) (TimeValue now)"
    using assms by simp
  from generateInvitationClaim_signed [OF this, of partner fs secret learnerKey salt]
  show ?thesis by (simp add: claimString_expand)
qed

theorem unparseable_expiry_is_signed_verbatim_witness:
  "dateParse exampleRuntime ''not-a-date'' = InvalidDate
   \<and> generateInvitationClaim exampleRuntime 1735689600000 ''acme'' [] ''s3cr3t'' ''lk_001'' ''deadbeef''
        ''not-a-date''
      = Inr (''partner=acme&learner_key=lk_001&salt=deadbeef&date_expires=not-a-date&signature='' @
          toStringHex (hmacSha256 exampleRuntime ''s3cr3t''
            (claimString ''acme'' [] ''lk_001'' ''deadbeef'' ''not-a-date'')))"
proof -
  have p: "dateParse exampleRuntime ''not-a-date'' = InvalidDate"
    by (simp add: exampleRuntime_def)
  show ?thesis
    using p unparseable_expiry_is_signed_verbatim [OF p, of 1735689600000 "''acme''" "[]" "''s3cr3t''" "''lk_001''" "''deadbeef''"]
    by (simp add: objectKeys_def)
qed

subsection \<open>C6: the link, and the default expiry\<close>

text \<open>The function with a valid expiry, with the default expiry and with the default salt.\<close>

lemma generateSubscribeLink_valid_date:
  "generateSubscribeLink rt entropy nowDefault nowCheck baseUrl partner fs secret learnerKey
      saltArg (Some (TimeValue t)) =
   (case generateInvitationClaim rt nowCheck partner fs secret learnerKey
           (case saltArg of None \<Rightarrow> toStringHex (randomBytes entropy 8) | Some s \<Rightarrow> s)
           (take 19 (isoString t)) of
      Inl e \<Rightarrow> Inl e
    | Inr tok \<Rightarrow> Inr (baseUrl @ ''/invitation-claim/?'' @ tok))"
  by (simp add: generateSubscribeLink_def)

lemma generateSubscribeLink_default_date:
  "\<bar>nowDefault + 900 * 1000\<bar> \<le> 8640000000000000 \<Longrightarrow>
   generateSubscribeLink rt entropy nowDefault nowCheck baseUrl partner fs secret learnerKey
      saltArg None =
   generateSubscribeLink rt entropy nowDefault nowCheck baseUrl partner fs secret learnerKey
      saltArg (Some (TimeValue (nowDefault + 900 * 1000)))"
  by (simp add: generateSubscribeLink_def timeClip_def CLAIM_DURATION_SECONDS_def)

lemma generateSubscribeLink_default_salt:
  "generateSubscribeLink rt entropy nowDefault nowCheck baseUrl partner fs secret learnerKey
      None dateArg =
   generateSubscribeLink rt entropy nowDefault nowCheck baseUrl partner fs secret learnerKey
      (Some (toStringHex (map entropy [0..<8]))) dateArg"
  by (simp add: generateSubscribeLink_def randomBytes_def)

text \<open>
  Claim C6. With an expiry that is a valid Date, \<open>generateSubscribeLink\<close> returns
  the base URL, then \<open>/invitation-claim/?\<close>, then the token that
  \<open>generateInvitationClaim\<close> returns for the first nineteen characters of the
  expiry's ISO text (and fails as that call fails). When the caller omits the expiry it
  is the clock reading plus \<open>CLAIM_DURATION_SECONDS * 1000\<close> milliseconds, that is
  plus 900 seconds; for a clock that reads a time from 1970-01-01T00:00:00Z on, with
  the default expiry not after 9999-12-31T23:59:59.999Z (253402300799999 ms), the text
  passed on has the format \<open>YYYY-MM-DDTHH:MM:SS\<close>.
\<close>

theorem subscribe_link_composition_and_default_expiry:
  assumes "0 \<le> nowDefault"
      and "nowDefault + 900 * 1000 \<le> 253402300799999"
  shows "generateSubscribeLink rt entropy nowDefault nowCheck baseUrl partner fs secret learnerKey
            saltArg (Some (TimeValue t)) =
          (case generateInvitationClaim rt nowCheck partner fs secret learnerKey
                  (case saltArg of None \<Rightarrow> toStringHex (randomBytes entropy 8) | Some s \<Rightarrow> s)
                  (take 19 (isoString t)) of
             Inl e \<Rightarrow> Inl e
           | Inr tok \<Rightarrow> Inr (baseUrl @ ''/invitation-claim/?'' @ tok))
       \<and> generateSubscribeLink rt entropy nowDefault nowCheck baseUrl partner fs secret learnerKey
            saltArg None =
          generateSubscribeLink rt entropy nowDefault nowCheck baseUrl partner fs secret learnerKey
            saltArg (Some (TimeValue (nowDefault + 900 * 1000)))
       \<and> CLAIM_DURATION_SECONDS = 900
       \<and> isoSecondsShape (take 19 (isoString (nowDefault + 900 * 1000)))"
proof -
  have range: "\<bar>nowDefault + 900 * 1000\<bar> \<le> 8640000000000000"
    using assms by linarith
  have "0 \<le> nowDefault + 900 * 1000"
    using assms(1) by linarith
  from yearFromTime_bounds [OF this assms(2)]
  have shape: "isoSecondsShape (take 19 (isoString (nowDefault + 900 * 1000)))"
    by (simp add: isoString_shape)
  have "CLAIM_DURATION_SECONDS = 900"
    by (simp add: CLAIM_DURATION_SECONDS_def)
  then show ?thesis
    using generateSubscribeLink_valid_date [of rt entropy nowDefault nowCheck baseUrl partner fs
        secret learnerKey saltArg t]
      generateSubscribeLink_default_date [OF range, of rt entropy nowCheck baseUrl partner fs
        secret learnerKey saltArg]
      shape
    by (simp only: simp_thms)
qed

lemma example_iso: "take 19 (isoString (1735689600000 + 900 * 1000)) = ''2025-01-01T00:15:00''"
  by code_simp

lemma example_link:
   "generateSubscribeLink exampleRuntime exampleEntropy 1735689600000 1735689600250
        ''https://aeviumeducation.com'' ''acme'' [(''code'', ''ABC123'')] ''s3cr3t'' ''lk_001''
        (Some ''deadbeef'') (Some (TimeValue (1735689600000 + 900 * 1000)))
      = Inr ''https://aeviumeducation.com/invitation-claim/?partner=acme&learner_key=lk_001&salt=deadbeef&date_expires=2025-01-01T00:15:00&field_code=ABC123&signature=0000000000000000000000000000000000000000000000000000000000000000''"
  by code_simp

theorem subscribe_link_composition_and_default_expiry_witness:
  "(0 :: int) \<le> 1735689600000
   \<and> (1735689600000 :: int) + 900 * 1000 \<le> 253402300799999
   \<and> generateSubscribeLink exampleRuntime exampleEntropy 1735689600000 1735689600250
        ''https://aeviumeducation.com'' ''acme'' [(''code'', ''ABC123'')] ''s3cr3t'' ''lk_001''
        (Some ''deadbeef'') None
      = Inr ''https://aeviumeducation.com/invitation-claim/?partner=acme&learner_key=lk_001&salt=deadbeef&date_expires=2025-01-01T00:15:00&field_code=ABC123&signature=0000000000000000000000000000000000000000000000000000000000000000''
   \<and> isoSecondsShape ''2025-01-01T00:15:00''"
proof -
  have a: "(0 :: int) \<le> 1735689600000" by simp
  have b: "(1735689600000 :: int) + 900 * 1000 \<le> 253402300799999" by simp
  from subscribe_link_composition_and_default_expiry [OF a b,
      of exampleRuntime exampleEntropy 1735689600250 "''https://aeviumeducation.com''" "''acme''"
         "[(''code'', ''ABC123'')]" "''s3cr3t''" "''lk_001''" "Some ''deadbeef''" 0]
  have "generateSubscribeLink exampleRuntime exampleEntropy 1735689600000 1735689600250
        ''https://aeviumeducation.com'' ''acme'' [(''code'', ''ABC123'')] ''s3cr3t'' ''lk_001''
        (Some ''deadbeef'') None =
      generateSubscribeLink exampleRuntime exampleEntropy 1735689600000 1735689600250
        ''https://aeviumeducation.com'' ''acme'' [(''code'', ''ABC123'')] ''s3cr3t'' ''lk_001''
        (Some ''deadbeef'') (Some (TimeValue (1735689600000 + 900 * 1000)))"
    and "isoSecondsShape (take 19 (isoString (1735689600000 + 900 * 1000)))"
    by blast+
  then show ?thesis
    using a b by (simp only: example_link example_iso simp_thms)
qed

subsection \<open>C10: the default salt\<close>

text \<open>
  Claim C10. When the caller omits the salt, the call is the call with the salt
  \<open>toStringHex [b0, ..., b7]\<close>, the first eight bytes of the random source: sixteen
  characters, each of \<open>0..9\<close> and \<open>a..f\<close>, that read back as these eight bytes,
  and every link returned has this text between \<open>&salt=\<close> and
  \<open>&date_expires=\<close>.
\<close>

theorem default_salt_is_hex_of_eight_random_bytes:
  "generateSubscribeLink rt entropy nowDefault nowCheck baseUrl partner fs secret learnerKey
      None dateArg =
   generateSubscribeLink rt entropy nowDefault nowCheck baseUrl partner fs secret learnerKey
      (Some (toStringHex (map entropy [0..<8]))) dateArg
   \<and> length (toStringHex (map entropy [0..<8])) = 16
   \<and> set (toStringHex (map entropy [0..<8])) \<subseteq> set ''0123456789abcdef''
   \<and> hexDecode (toStringHex (map entropy [0..<8])) = map entropy [0..<8]
   \<and> (\<forall>url. generateSubscribeLink rt entropy nowDefault nowCheck baseUrl partner fs secret
               learnerKey None dateArg = Inr url \<longrightarrow>
        (\<exists>rest. url = baseUrl @ ''/invitation-claim/?partner='' @ partner @ ''&learner_key='' @
                  learnerKey @ ''&salt='' @ toStringHex (map entropy [0..<8]) @
                  ''&date_expires='' @ rest))"
proof -
  let ?salt = "toStringHex (map entropy [0..<8])"
  have hex: "set ?salt \<subseteq> set ''0123456789abcdef''"
    using set_toStringHex [of "map entropy [0..<8]"] by (simp only: hexDigits_def)
  have len: "length ?salt = 16"
    by (simp add: length_toStringHex)
  have emb: "\<exists>rest. url = baseUrl @ ''/invitation-claim/?partner='' @ partner @ ''&learner_key='' @
                  learnerKey @ ''&salt='' @ ?salt @ ''&date_expires='' @ rest"
    if "generateSubscribeLink rt entropy nowDefault nowCheck baseUrl partner fs secret
               learnerKey None dateArg = Inr url" for url
    using that
    by (auto simp: generateSubscribeLink_def generateInvitationClaim_def randomBytes_def
          claimString_expand Let_def split: sum.splits if_splits)
  have dec: "hexDecode ?salt = map entropy [0..<8]"
    by (rule hexDecode_toStringHex)
  show ?thesis
    using generateSubscribeLink_default_salt hex len dec emb by blast
qed

lemma example_salt: "toStringHex (map exampleEntropy [0..<8]) = ''fa1f44698eb3d8fd''"
  by code_simp

lemma example_link_default_salt:
   "generateSubscribeLink exampleRuntime exampleEntropy 1735689600000 1735689600250
        ''https://aeviumeducation.com'' ''acme'' [(''code'', ''ABC123'')] ''s3cr3t'' ''lk_001''
        None None
      = Inr ''https://aeviumeducation.com/invitation-claim/?partner=acme&learner_key=lk_001&salt=fa1f44698eb3d8fd&date_expires=2025-01-01T00:15:00&field_code=ABC123&signature=0000000000000000000000000000000000000000000000000000000000000000''"
  by code_simp

theorem default_salt_is_hex_of_eight_random_bytes_witness:
  "generateSubscribeLink exampleRuntime exampleEntropy 1735689600000 1735689600250
        ''https://aeviumeducation.com'' ''acme'' [(''code'', ''ABC123'')] ''s3cr3t'' ''lk_001''
        None None
      = Inr ''https://aeviumeducation.com/invitation-claim/?partner=acme&learner_key=lk_001&salt=fa1f44698eb3d8fd&date_expires=2025-01-01T00:15:00&field_code=ABC123&signature=0000000000000000000000000000000000000000000000000000000000000000''
   \<and> toStringHex (map exampleEntropy [0..<8]) = ''fa1f44698eb3d8fd''
   \<and> length (toStringHex (map exampleEntropy [0..<8])) = 16
   \<and> set (toStringHex (map exampleEntropy [0..<8])) \<subseteq> set ''0123456789abcdef''"
proof -
  from default_salt_is_hex_of_eight_random_bytes [of exampleRuntime exampleEntropy 1735689600000
      1735689600250 "''https://aeviumeducation.com''" "''acme''" "[(''code'', ''ABC123'')]"
      "''s3cr3t''" "''lk_001''" None]
  have "length (toStringHex (map exampleEntropy [0..<8])) = 16"
    and "set (toStringHex (map exampleEntropy [0..<8])) \<subseteq> set ''0123456789abcdef''"
    by blast+
  then show ?thesis
    using example_link_default_salt example_salt by blast
qed

end
